theory Spec2Isabelle
  imports Main "HOL-Library.Sublist"
begin

section \<open>Python string primitives used by certgen.py\<close>

text \<open>
  Python strings are modelled as \<^typ>\<open>string\<close>; a character is a code point of the
  Latin-1 range. \<open>str.isspace\<close> and \<open>str.lower\<close> follow CPython's tables on that range.
\<close>

definition py_isspace :: "char \<Rightarrow> bool" where
  "py_isspace c =
     (let n = (of_char c :: nat)
      in (9 \<le> n \<and> n \<le> 13) \<or> (28 \<le> n \<and> n \<le> 32) \<or> n = 133 \<or> n = 160)"

definition py_lstrip :: "string \<Rightarrow> string" where
  "py_lstrip s = dropWhile py_isspace s"

definition py_rstrip :: "string \<Rightarrow> string" where
  "py_rstrip s = rev (dropWhile py_isspace (rev s))"

text \<open>\<open>s.strip()\<close>: leading and trailing whitespace removed.\<close>

definition py_strip :: "string \<Rightarrow> string" where
  "py_strip s = py_lstrip (py_rstrip s)"

definition lower_char :: "char \<Rightarrow> char" where
  "lower_char c =
     (let n = (of_char c :: nat)
      in if (65 \<le> n \<and> n \<le> 90) \<or> (192 \<le> n \<and> n \<le> 222 \<and> n \<noteq> 215)
         then char_of (n + 32) else c)"

text \<open>\<open>s.lower()\<close>.\<close>

definition py_lower :: "string \<Rightarrow> string" where
  "py_lower s = map lower_char s"

text \<open>
  \<open>s.split(sep)\<close> for a one-character separator: the pieces between the separators,
  empty pieces kept, so that the empty string splits into one empty piece.
\<close>

fun py_split :: "char \<Rightarrow> string \<Rightarrow> string list" where
  "py_split sep [] = [[]]"
| "py_split sep (x # xs) =
     (if x = sep then [] # py_split sep xs
      else (case py_split sep xs of
              [] \<Rightarrow> [[x]]
            | piece # pieces \<Rightarrow> (x # piece) # pieces))"

text \<open>
  \<open>s.replace(old, new)\<close> for a non-empty \<open>old\<close>: the occurrences of \<open>old\<close> are found
  from the left, without overlap, and each is replaced.
\<close>

function py_replace :: "string \<Rightarrow> string \<Rightarrow> string \<Rightarrow> string" where
  "py_replace old new [] = []"
| "py_replace old new (x # xs) =
     (if old \<noteq> [] \<and> prefix old (x # xs)
      then new @ py_replace old new (drop (length old) (x # xs))
      else x # py_replace old new xs)"
  by pat_completeness auto
termination
  by (relation "measure (\<lambda>(old, new, s). length s)") auto

text \<open>\<open>str(i)\<close> for a non-negative integer: its decimal digits.\<close>

definition digit :: "nat \<Rightarrow> char" where
  "digit d = char_of (48 + d)"

function py_str :: "nat \<Rightarrow> string" where
  "py_str n = (if n < 10 then [digit n] else py_str (n div 10) @ [digit (n mod 10)])"
  by pat_completeness auto
termination
  by (relation "measure id") auto

declare py_str.simps [simp del]

abbreviation nl :: char where
  "nl \<equiv> CHR 0x0A"

text \<open>A multi-line literal: every line followed by a line feed.\<close>

definition text_lines :: "string list \<Rightarrow> string" where
  "text_lines ls = concat (map (\<lambda>l. l @ [nl]) ls)"

section \<open>The world the program runs in\<close>

text \<open>
  The exceptions that can leave \<open>main\<close>: \<open>input\<close> at end of input, a call whose
  keywords do not fit the callee's parameters, and a failing operating-system call.
\<close>

datatype error = EOFError | TypeError | OSError

text \<open>The operations that can change the file system, logged as they are attempted.\<close>

datatype syscall =
    Makedirs string
  | WriteFile string string
  | Run "string list"

text \<open>
  The operating system and the external \<open>openssl\<close> executable are not part of the
  program: they are a parameter, over any type \<open>'fs\<close> of file-system states.
  \<open>None\<close> is an operation that raises.
\<close>

record 'fs platform =
  which :: "string \<Rightarrow> 'fs \<Rightarrow> bool"
  path_exists :: "string \<Rightarrow> 'fs \<Rightarrow> bool"
  makedirs :: "string \<Rightarrow> 'fs \<Rightarrow> 'fs option"
  write_text :: "string \<Rightarrow> string \<Rightarrow> 'fs \<Rightarrow> 'fs option"
  subprocess_run :: "string list \<Rightarrow> 'fs \<Rightarrow> 'fs option"

text \<open>
  \<open>stdin\<close> holds the lines still to be read (without their line ends), \<open>stdout\<close> the
  chunks written so far, one per \<open>print\<close> or prompt.
\<close>

record 'fs world =
  fs :: 'fs
  stdin :: "string list"
  stdout :: "string list"
  calls :: "syscall list"

datatype ('a, 'w) res = Return 'a 'w | Raise error 'w

definition and_then :: "('a, 'w) res \<Rightarrow> ('a \<Rightarrow> 'w \<Rightarrow> ('b, 'w) res) \<Rightarrow> ('b, 'w) res" where
  "and_then m k = (case m of Return a w \<Rightarrow> k a w | Raise e w \<Rightarrow> Raise e w)"

definition print :: "string \<Rightarrow> 'fs world \<Rightarrow> (unit, 'fs world) res" where
  "print s w = Return () (w\<lparr>stdout := stdout w @ [s @ [nl]]\<rparr>)"

fun prints :: "string list \<Rightarrow> 'fs world \<Rightarrow> (unit, 'fs world) res" where
  "prints [] w = Return () w"
| "prints (s # ss) w = and_then (print s w) (\<lambda>_. prints ss)"

definition input :: "string \<Rightarrow> 'fs world \<Rightarrow> (string, 'fs world) res" where
  "input prompt w =
     (let w' = w\<lparr>stdout := stdout w @ [prompt]\<rparr>
      in case stdin w of
           [] \<Rightarrow> Raise EOFError w'
         | line # rest \<Rightarrow> Return line (w'\<lparr>stdin := rest\<rparr>))"

definition run :: "'fs platform \<Rightarrow> string list \<Rightarrow> 'fs world \<Rightarrow> (unit, 'fs world) res" where
  "run os args w =
     (let w' = w\<lparr>calls := calls w @ [Run args]\<rparr>
      in case subprocess_run os args (fs w) of
           None \<Rightarrow> Raise OSError w'
         | Some fs' \<Rightarrow> Return () (w'\<lparr>fs := fs'\<rparr>))"

definition os_makedirs :: "'fs platform \<Rightarrow> string \<Rightarrow> 'fs world \<Rightarrow> (unit, 'fs world) res" where
  "os_makedirs os path w =
     (let w' = w\<lparr>calls := calls w @ [Makedirs path]\<rparr>
      in case makedirs os path (fs w) of
           None \<Rightarrow> Raise OSError w'
         | Some fs' \<Rightarrow> Return () (w'\<lparr>fs := fs'\<rparr>))"

definition write_file :: "'fs platform \<Rightarrow> string \<Rightarrow> string \<Rightarrow> 'fs world \<Rightarrow> (unit, 'fs world) res" where
  "write_file os path content w =
     (let w' = w\<lparr>calls := calls w @ [WriteFile path content]\<rparr>
      in case write_text os path content (fs w) of
           None \<Rightarrow> Raise OSError w'
         | Some fs' \<Rightarrow> Return () (w'\<lparr>fs := fs'\<rparr>))"

text \<open>
  A call that passes keywords only, to a function whose parameters have no defaults:
  the keywords must be the parameters, or the call raises \<open>TypeError\<close> before the body runs.
\<close>

definition call_kw ::
  "string list \<Rightarrow> string list \<Rightarrow> ('w \<Rightarrow> ('a, 'w) res) \<Rightarrow> 'w \<Rightarrow> ('a, 'w) res" where
  "call_kw params keywords body w =
     (if set keywords = set params then body w else Raise TypeError w)"

section \<open>certgen.py\<close>

definition check_openssl :: "'fs platform \<Rightarrow> 'fs world \<Rightarrow> (bool, 'fs world) res" where
  "check_openssl os w =
     (if \<not> which os ''openssl'' (fs w)
      then and_then
             (prints [''Error: OpenSSL is not installed or not available in system PATH'',
                      ''Please install OpenSSL and try again''] w)
             (\<lambda>_. Return False)
      else Return True w)"

text \<open>\<open>def create_root_ca():\<close> no parameters.\<close>

definition create_root_ca_params :: "string list" where
  "create_root_ca_params = []"

definition create_root_ca :: "'fs platform \<Rightarrow> 'fs world \<Rightarrow> (unit, 'fs world) res" where
  "create_root_ca os w =
     and_then (print ''Creating root CA certificate...'' w) (\<lambda>_ w.
     and_then (run os [''openssl'', ''genrsa'', ''-des3'', ''-passout'', ''pass:1234'',
                       ''-out'', ''LocalRootCA.key'', ''4096''] w) (\<lambda>_ w.
     and_then (run os [''openssl'', ''req'', ''-x509'', ''-new'', ''-nodes'',
                       ''-key'', ''LocalRootCA.key'', ''-sha256'', ''-days'', ''3650'',
                       ''-passin'', ''pass:1234'',
                       ''-out'', ''LocalRootCA.crt'',
                       ''-subj'',
                       ''/C=US/ST=State/L=City/O=Local CA/OU=Development/CN=Local Root CA''] w)
       (\<lambda>_ w.
     and_then (run os [''openssl'', ''x509'', ''-in'', ''LocalRootCA.crt'',
                       ''-out'', ''LocalRootCA.pem'', ''-outform'', ''PEM''] w) (\<lambda>_.
     prints [[nl] @ ''Root CA created successfully!'',
             ''Location: ./LocalRootCA.key, ./LocalRootCA.crt and ./LocalRootCA.pem'',
             ''Root CA Key Password: 1234'']))))"

definition create_key :: "'fs platform \<Rightarrow> string \<Rightarrow> 'fs world \<Rightarrow> (string, 'fs world) res" where
  "create_key os domain w =
     (let key_file = ''domains/'' @ domain @ ''/'' @ domain @ ''.key''
      in and_then (run os [''openssl'', ''genrsa'', ''-out'', key_file, ''2048''] w) (\<lambda>_ w.
         and_then (print (''Generated key: '' @ key_file) w) (\<lambda>_.
         Return key_file)))"

definition create_csr ::
  "'fs platform \<Rightarrow> string \<Rightarrow> string \<Rightarrow> 'fs world \<Rightarrow> (string, 'fs world) res" where
  "create_csr os domain config_file w =
     (let csr_file = ''domains/'' @ domain @ ''/'' @ domain @ ''.csr''
      in and_then (run os [''openssl'', ''req'', ''-new'', ''-key'',
                           ''domains/'' @ domain @ ''/'' @ domain @ ''.key'',
                           ''-out'', csr_file, ''-config'', config_file] w) (\<lambda>_ w.
         and_then (print (''Generated CSR: '' @ csr_file) w) (\<lambda>_.
         Return csr_file)))"

definition sign_certificate ::
  "'fs platform \<Rightarrow> string \<Rightarrow> string \<Rightarrow> 'fs world \<Rightarrow> (string, 'fs world) res" where
  "sign_certificate os domain config_file w =
     (let crt_file = ''domains/'' @ domain @ ''/'' @ domain @ ''.crt''
      in and_then (run os [''openssl'', ''x509'', ''-req'', ''-in'',
                           ''domains/'' @ domain @ ''/'' @ domain @ ''.csr'',
                           ''-CA'', ''LocalRootCA.crt'', ''-CAkey'', ''LocalRootCA.key'',
                           ''-passin'', ''pass:1234'',
                           ''-CAcreateserial'', ''-out'', crt_file, ''-days'', ''365'',
                           ''-sha256'', ''-extfile'', config_file,
                           ''-extensions'', ''v3_req''] w) (\<lambda>_ w.
         and_then (print (''Generated Certificate: '' @ crt_file) w) (\<lambda>_.
         Return crt_file)))"

text \<open>Lines 70 and 151: \<open>dir_domain = domain.replace('*.', '')\<close>.\<close>

definition dir_domain :: "string \<Rightarrow> string" where
  "dir_domain domain = py_replace ''*.'' '''' domain"

text \<open>Line 71: \<open>config_file = f"domains/{dir_domain}/openssl.cnf"\<close>.\<close>

definition config_file_path :: "string \<Rightarrow> string" where
  "config_file_path domain = ''domains/'' @ dir_domain domain @ ''/openssl.cnf''"

text \<open>
  Lines 73-96: the text of the first \<open>f.write\<close>, line by line. The literal opens
  with a line feed and ends with one.
\<close>

definition header_lines :: "string \<Rightarrow> string list" where
  "header_lines domain =
     ['''',
      ''[ req ]'',
      ''default_bits       = 2048'',
      ''distinguished_name = req_distinguished_name'',
      ''req_extensions     = req_ext'',
      ''x509_extensions    = v3_req'',
      ''prompt             = no'',
      '''',
      ''[ req_distinguished_name ]'',
      ''C  = US'',
      ''ST = State'',
      ''L  = City'',
      ''O  = Organization'',
      ''OU = Organizational Unit'',
      ''CN = '' @ domain,
      '''',
      ''[ req_ext ]'',
      ''subjectAltName = @alt_names'',
      '''',
      ''[ v3_req ]'',
      ''subjectAltName = @alt_names'',
      '''',
      ''[ alt_names ]'']"

definition config_header :: "string \<Rightarrow> string" where
  "config_header domain = text_lines (header_lines domain)"

text \<open>Line 98: the text of one \<open>f.write\<close> of the loop.\<close>

definition dns_entry :: "nat \<Rightarrow> string \<Rightarrow> string" where
  "dns_entry i alt_name = ''DNS.'' @ py_str i @ '' = '' @ alt_name @ [nl]"

text \<open>
  Lines 72-98: what the file holds when the \<open>with\<close> block ends. The loop over
  \<open>enumerate(alt_names, start=1)\<close> appends one write after the other.
\<close>

definition config_text :: "string \<Rightarrow> string list \<Rightarrow> string" where
  "config_text domain alt_names =
     foldl (\<lambda>written (i, alt_name). written @ dns_entry i alt_name)
       (config_header domain) (enumerate 1 alt_names)"

definition create_openssl_config ::
  "'fs platform \<Rightarrow> string \<Rightarrow> string list \<Rightarrow> 'fs world \<Rightarrow> (string, 'fs world) res" where
  "create_openssl_config os domain alt_names w =
     (let config_file = config_file_path domain
      in and_then (write_file os config_file (config_text domain alt_names) w) (\<lambda>_ w.
         and_then (print (''Generated OpenSSL config: '' @ config_file) w) (\<lambda>_.
         Return config_file)))"

text \<open>
  Line 140: \<open>[name.strip() for name in alt_names.split(',') if name.strip()]\<close>;
  a string is truthy when it is not empty.
\<close>

definition parse_alt_names :: "string \<Rightarrow> string list" where
  "parse_alt_names alt_names =
     map py_strip (filter (\<lambda>name. py_strip name \<noteq> []) (py_split (CHR '','') alt_names))"

text \<open>
  Lines 141-142: \<open>if domain not in alt_names_list: alt_names_list.insert(0, domain)\<close>.
\<close>

definition include_domain :: "string \<Rightarrow> string list \<Rightarrow> string list" where
  "include_domain domain alt_names_list =
     (if domain \<notin> set alt_names_list then domain # alt_names_list else alt_names_list)"

text \<open>Line 152: \<open>domain_dir = f"domains/{dir_domain}"\<close>.\<close>

definition domain_dir :: "string \<Rightarrow> string" where
  "domain_dir domain = ''domains/'' @ dir_domain domain"

definition banner :: string where
  "banner = text_lines
     ['''',
      ''Certificate Generator with Wildcard Support'',
      ''-----------------------------------------'',
      ''For wildcard certificates, use the following format:'',
      ''- Main domain: example.com'',
      ''- To include wildcard: *.example.com'',
      ''Example alternate names: '',
      ''- *.subdomain.example.com'',
      ''- specific.example.com'']"

definition root_ca_prompt :: string where
  "root_ca_prompt = ''Root CA certificate not found. Do you want to create it? (y/n): ''"

definition domain_prompt :: string where
  "domain_prompt = ''Enter the main domain (e.g., example.com or *.example.com): ''"

text \<open>Lines 144-173 of \<open>main\<close>: from the directories to the usage instructions.\<close>

definition issue_domain ::
  "'fs platform \<Rightarrow> string \<Rightarrow> string list \<Rightarrow> 'fs world \<Rightarrow> (unit, 'fs world) res" where
  "issue_domain os domain alt_names_list w =
     and_then
       (if \<not> path_exists os ''domains'' (fs w)
        then and_then (os_makedirs os ''domains'' w) (\<lambda>_.
             print ''Created directory: domains'')
        else Return () w) (\<lambda>_ w.
     and_then
       (if \<not> path_exists os (domain_dir domain) (fs w)
        then and_then (os_makedirs os (domain_dir domain) w) (\<lambda>_.
             print (''Created directory: '' @ domain_dir domain))
        else Return () w) (\<lambda>_ w.
     and_then (create_openssl_config os domain alt_names_list w) (\<lambda>config_file w.
     and_then (create_key os (dir_domain domain) w) (\<lambda>_ w.
     and_then (create_csr os (dir_domain domain) config_file w) (\<lambda>_ w.
     and_then (sign_certificate os (dir_domain domain) config_file w) (\<lambda>_ w.
     and_then
       (prints [[nl] @ ''Certificate generation complete!'',
                [nl] @ ''Usage Instructions:'',
                ''1. Your certificate files are in the '' @ [CHR 0x27] @ ''domains''
                  @ [CHR 0x27] @ '' directory''] w) (\<lambda>_ w.
     if CHR ''*'' \<in> set domain
     then prints
            [''2. This wildcard certificate will work for all subdomains at the specified level'',
             ''   For example, if your domain is *.example.com, it will work for:'',
             ''   - test.example.com'',
             ''   - dev.example.com'',
             ''   But NOT for: sub.test.example.com (different level)''] w
     else Return () w)))))))"

text \<open>Lines 127-142 of \<open>main\<close>: the two prompts, then the rest.\<close>

definition collect_domain_input :: "'fs platform \<Rightarrow> 'fs world \<Rightarrow> (unit, 'fs world) res" where
  "collect_domain_input os w =
     and_then (input domain_prompt w) (\<lambda>line w.
     let domain = py_strip line
     in if domain = [] then print ''Domain cannot be empty!'' w
        else
          and_then
            (prints [[nl] @ ''Enter alternate domain names (comma-separated)'',
                     ''Examples:'',
                     ''- For wildcard subdomains: *.app.example.com'',
                     ''- For specific domains: admin.example.com''] w) (\<lambda>_ w.
          and_then (input ''Alternate names: '' w) (\<lambda>line w.
          let alt_names = py_strip line;
              alt_names_list = include_domain domain (parse_alt_names alt_names)
          in issue_domain os domain alt_names_list w)))"

text \<open>
  \<open>main\<close>, lines 102-125; a \<open>return\<close> in the middle of the function ends the chain.
  Line 122 is \<open>create_root_ca(prefixName="Local")\<close>.
\<close>

definition main :: "'fs platform \<Rightarrow> 'fs world \<Rightarrow> (unit, 'fs world) res" where
  "main os w =
     and_then (check_openssl os w) (\<lambda>available w.
     if \<not> available then Return () w
     else
       and_then (print banner w) (\<lambda>_ w.
       if \<not> (path_exists os ''LocalRootCA.key'' (fs w)
            \<and> path_exists os ''LocalRootCA.crt'' (fs w)
            \<and> path_exists os ''LocalRootCA.pem'' (fs w))
       then
         and_then (input root_ca_prompt w) (\<lambda>line w.
         let response = py_lower (py_strip line)
         in if response = ''y''
            then and_then
                   (call_kw create_root_ca_params [''prefixName''] (create_root_ca os) w)
                   (\<lambda>_. collect_domain_input os)
            else print ''Cannot proceed without root CA certificate.'' w)
       else collect_domain_input os w))"

section \<open>Reading the results\<close>

fun world_of :: "('a, 'w) res \<Rightarrow> 'w" where
  "world_of (Return a w) = w"
| "world_of (Raise e w) = w"

fun raised :: "('a, 'w) res \<Rightarrow> error option" where
  "raised (Return a w) = None"
| "raised (Raise e w) = Some e"

text \<open>The lines of a text file, and those of them that start with \<open>DNS.\<close>.\<close>

definition file_lines :: "string \<Rightarrow> string list" where
  "file_lines content = py_split nl content"

definition dns_lines :: "string \<Rightarrow> string list" where
  "dns_lines content = filter (prefix ''DNS.'') (file_lines content)"

text \<open>
  The alternate names as the specification words them: split the line at the commas,
  strip every segment, drop the segments that are empty after stripping.
\<close>

definition spec_alt_names :: "string \<Rightarrow> string list" where
  "spec_alt_names line =
     filter (\<lambda>segment. segment \<noteq> []) (map py_strip (py_split (CHR '','') line))"

text \<open>One numbered entry of the \<open>alt_names\<close> section, without its line feed.\<close>

definition dns_line :: "nat \<times> string \<Rightarrow> string" where
  "dns_line p = ''DNS.'' @ py_str (fst p) @ '' = '' @ snd p"

section \<open>A platform to run the program on\<close>

text \<open>
  An in-memory file system for concrete runs: paths are compared as written,
  \<open>makedirs\<close> raises on an existing path, a write raises on a directory, and a
  successful \<open>openssl\<close> run leaves a file at the path that follows \<open>-out\<close>.
\<close>

datatype node = Dir | File string

type_synonym memfs = "string \<rightharpoonup> node"

fun out_arg :: "string list \<Rightarrow> string option" where
  "out_arg (flag # path # rest) =
     (if flag = ''-out'' then Some path else out_arg (path # rest))"
| "out_arg _ = None"

definition mem_platform :: "memfs platform" where
  "mem_platform =
     \<lparr>which = (\<lambda>prog fs. prog = ''openssl''),
      path_exists = (\<lambda>path fs. fs path \<noteq> None),
      makedirs = (\<lambda>path fs. if fs path \<noteq> None then None else Some (fs(path \<mapsto> Dir))),
      write_text = (\<lambda>path content fs.
         if fs path = Some Dir then None else Some (fs(path \<mapsto> File content))),
      subprocess_run = (\<lambda>args fs.
         case out_arg args of
           None \<Rightarrow> Some fs
         | Some path \<Rightarrow> Some (fs(path \<mapsto> File ''(written by openssl)'')))\<rparr>"

definition root_ca_files :: memfs where
  "root_ca_files =
     [''LocalRootCA.key'' \<mapsto> File ''(written by openssl)'',
      ''LocalRootCA.crt'' \<mapsto> File ''(written by openssl)'',
      ''LocalRootCA.pem'' \<mapsto> File ''(written by openssl)'']"

definition start :: "memfs \<Rightarrow> string list \<Rightarrow> memfs world" where
  "start files lines = \<lparr>fs = files, stdin = lines, stdout = [], calls = []\<rparr>"

text \<open>The example run of the specification, with the root CA already there.\<close>

definition example_run :: "(unit, memfs world) res" where
  "example_run =
     main mem_platform
       (start root_ca_files [''*.example.com'', ''admin.example.com, *.app.example.com''])"

section \<open>Strings\<close>

lemma py_replace_absent:
  "old \<noteq> [] \<Longrightarrow> hd old \<notin> set s \<Longrightarrow> py_replace old new s = s"
proof (induction s)
  case Nil
  then show ?case by simp
next
  case (Cons x xs)
  then have "\<not> prefix old (x # xs)"
    by (cases old) auto
  with Cons show ?case by simp
qed

lemma py_replace_no_occurrence:
  "\<not> sublist old s \<Longrightarrow> py_replace old new s = s"
proof (induction s)
  case Nil
  then show ?case by simp
next
  case (Cons x xs)
  then have "\<not> prefix old (x # xs)" and "\<not> sublist old xs"
    by (auto simp: sublist_Cons_right)
  with Cons.IH show ?case by simp
qed

lemma length_py_replace_le: "length (py_replace old [] s) \<le> length s"
proof (induction old "[]::string" s rule: py_replace.induct)
  case (1 old)
  then show ?case by simp
next
  case (2 old x xs)
  then show ?case by (auto simp del: prefix_code)
qed

lemma py_replace_shorter:
  "old \<noteq> [] \<Longrightarrow> sublist old s \<Longrightarrow> length (py_replace old [] s) < length s"
proof (induction s)
  case Nil
  then show ?case by simp
next
  case (Cons x xs)
  show ?case
  proof (cases "prefix old (x # xs)")
    case True
    have "length (py_replace old [] (drop (length old) (x # xs)))
            \<le> length (drop (length old) (x # xs))"
      by (rule length_py_replace_le)
    also have "\<dots> < length (x # xs)"
      using Cons.prems(1) by simp
    finally show ?thesis
      using True Cons.prems(1) by simp
  next
    case False
    with Cons.prems have "sublist old xs"
      by (simp add: sublist_Cons_right)
    with Cons have "length (py_replace old [] xs) < length xs"
      by simp
    with False show ?thesis by simp
  qed
qed

lemma dir_domain_wildcard: "dir_domain (CHR ''*'' # CHR ''.'' # rest) = dir_domain rest"
  by (simp add: dir_domain_def)

lemma dir_domain_fixed: "(dir_domain s = s) = (\<not> sublist ''*.'' s)"
proof
  assume eq: "dir_domain s = s"
  show "\<not> sublist ''*.'' s"
  proof
    assume "sublist ''*.'' s"
    then have "length (dir_domain s) < length s"
      unfolding dir_domain_def by (intro py_replace_shorter) simp_all
    with eq show False by simp
  qed
next
  assume "\<not> sublist ''*.'' s"
  then show "dir_domain s = s"
    unfolding dir_domain_def by (rule py_replace_no_occurrence)
qed

lemma py_split_not_Nil: "py_split c s \<noteq> []"
  by (induction s) (auto split: list.splits)

lemma py_split_no_sep: "c \<notin> set s \<Longrightarrow> py_split c s = [s]"
  by (induction s) auto

lemma py_split_append_sep:
  "py_split c (xs @ c # ys) = py_split c xs @ py_split c ys"
  by (induction xs) (auto split: list.splits simp: py_split_not_Nil)

lemma py_split_prepend:
  "c \<notin> set ws \<Longrightarrow>
   py_split c (ws @ t) = (ws @ hd (py_split c t)) # tl (py_split c t)"
  by (induction ws) (auto split: list.splits simp: py_split_not_Nil)

lemma py_split_append:
  "c \<notin> set ws \<Longrightarrow>
   py_split c (t @ ws) = butlast (py_split c t) @ [last (py_split c t) @ ws]"
  by (induction t) (auto split: list.splits simp: py_split_not_Nil py_split_no_sep)

lemma py_rstrip_append_space:
  "\<forall>x\<in>set ws. py_isspace x \<Longrightarrow> py_rstrip (l @ ws) = py_rstrip l"
  by (auto simp: py_rstrip_def intro!: dropWhile_append2)

lemma py_strip_append_space:
  "\<forall>x\<in>set ws. py_isspace x \<Longrightarrow> py_strip (l @ ws) = py_strip l"
  by (simp add: py_strip_def py_rstrip_append_space)

lemma py_rstrip_Nil_iff: "(py_rstrip l = []) = (\<forall>x\<in>set l. py_isspace x)"
  by (auto simp: py_rstrip_def dropWhile_eq_Nil_conv)

lemma py_rstrip_prepend:
  "py_rstrip (ws @ l) = (if \<forall>x\<in>set l. py_isspace x then py_rstrip ws else ws @ py_rstrip l)"
  by (auto simp: py_rstrip_def dropWhile_append dropWhile_eq_Nil_conv)

lemma py_strip_prepend_space:
  assumes "\<forall>x\<in>set ws. py_isspace x"
  shows "py_strip (ws @ l) = py_strip l"
proof (cases "\<forall>x\<in>set l. py_isspace x")
  case True
  with assms have "py_rstrip (ws @ l) = []" and "py_rstrip l = []"
    by (auto simp: py_rstrip_Nil_iff)
  then show ?thesis by (simp add: py_strip_def)
next
  case False
  then have "py_rstrip (ws @ l) = ws @ py_rstrip l"
    by (auto simp: py_rstrip_prepend)
  with assms show ?thesis
    by (simp add: py_strip_def py_lstrip_def dropWhile_append2)
qed

lemma py_lstrip_decomp:
  "\<exists>ws. s = ws @ py_lstrip s \<and> (\<forall>x\<in>set ws. py_isspace x)"
proof
  show "s = takeWhile py_isspace s @ py_lstrip s \<and> (\<forall>x\<in>set (takeWhile py_isspace s). py_isspace x)"
    by (auto simp: py_lstrip_def dest: set_takeWhileD)
qed

lemma py_rstrip_decomp:
  "\<exists>ws. s = py_rstrip s @ ws \<and> (\<forall>x\<in>set ws. py_isspace x)"
proof
  let ?ws = "rev (takeWhile py_isspace (rev s))"
  have "rev (takeWhile py_isspace (rev s) @ dropWhile py_isspace (rev s)) = rev (rev s)"
    by (simp only: takeWhile_dropWhile_id)
  then have "s = py_rstrip s @ ?ws"
    by (simp only: py_rstrip_def rev_append rev_rev_ident)
  moreover have "\<forall>x\<in>set ?ws. py_isspace x"
    by (auto dest: set_takeWhileD)
  ultimately show "s = py_rstrip s @ ?ws \<and> (\<forall>x\<in>set ?ws. py_isspace x)"
    by simp
qed

lemma comma_not_space: "\<not> py_isspace (CHR '','')"
  by (simp add: py_isspace_def)

lemma map_strip_split_prepend:
  assumes "\<forall>x\<in>set ws. py_isspace x"
  shows "map py_strip (py_split (CHR '','') (ws @ t)) = map py_strip (py_split (CHR '','') t)"
proof -
  from assms comma_not_space have "CHR '','' \<notin> set ws" by auto
  then have "py_split (CHR '','') (ws @ t)
               = (ws @ hd (py_split (CHR '','') t)) # tl (py_split (CHR '','') t)"
    by (rule py_split_prepend)
  then have "map py_strip (py_split (CHR '','') (ws @ t))
               = py_strip (hd (py_split (CHR '','') t)) # map py_strip (tl (py_split (CHR '','') t))"
    using assms by (simp add: py_strip_prepend_space)
  also have "\<dots> = map py_strip (hd (py_split (CHR '','') t) # tl (py_split (CHR '','') t))"
    by simp
  finally show ?thesis
    by (simp add: py_split_not_Nil)
qed

lemma map_strip_split_append:
  assumes "\<forall>x\<in>set ws. py_isspace x"
  shows "map py_strip (py_split (CHR '','') (t @ ws)) = map py_strip (py_split (CHR '','') t)"
proof -
  from assms comma_not_space have "CHR '','' \<notin> set ws" by auto
  then have "py_split (CHR '','') (t @ ws)
               = butlast (py_split (CHR '','') t) @ [last (py_split (CHR '','') t) @ ws]"
    by (rule py_split_append)
  then have "map py_strip (py_split (CHR '','') (t @ ws))
               = map py_strip (butlast (py_split (CHR '','') t) @ [last (py_split (CHR '','') t)])"
    using assms by (simp add: py_strip_append_space)
  then show ?thesis
    by (simp add: py_split_not_Nil)
qed

lemma map_strip_split_strip:
  "map py_strip (py_split (CHR '','') (py_strip s)) = map py_strip (py_split (CHR '','') s)"
proof -
  obtain ws1 where r: "s = py_rstrip s @ ws1" "\<forall>x\<in>set ws1. py_isspace x"
    using py_rstrip_decomp by blast
  obtain ws2 where l: "py_rstrip s = ws2 @ py_strip s" "\<forall>x\<in>set ws2. py_isspace x"
    using py_lstrip_decomp [of "py_rstrip s"] by (auto simp: py_strip_def)
  have "map py_strip (py_split (CHR '','') s)
          = map py_strip (py_split (CHR '','') (py_rstrip s @ ws1))"
    using r(1) by simp
  also have "\<dots> = map py_strip (py_split (CHR '','') (py_rstrip s))"
    using r(2) by (rule map_strip_split_append)
  also have "\<dots> = map py_strip (py_split (CHR '','') (ws2 @ py_strip s))"
    using l(1) by simp
  also have "\<dots> = map py_strip (py_split (CHR '','') (py_strip s))"
    using l(2) by (rule map_strip_split_prepend)
  finally show ?thesis by simp
qed

lemma parse_alt_names_spec: "parse_alt_names s = spec_alt_names s"
  by (simp add: parse_alt_names_def spec_alt_names_def filter_map comp_def)

section \<open>The directory of a domain\<close>

text \<open>
  C7. A domain without the character \<open>*\<close> is its own directory name: the configuration
  file of \<open>domain\<close> is \<open>domains/<domain>/openssl.cnf\<close>, in the directory
  \<open>domains/<domain>\<close> that \<open>main\<close> creates.
\<close>

theorem plain_domain_dir:
  assumes "CHR ''*'' \<notin> set domain"
  shows "domain_dir domain = ''domains/'' @ domain
         \<and> config_file_path domain = ''domains/'' @ domain @ ''/openssl.cnf''"
  using assms by (simp add: domain_dir_def config_file_path_def dir_domain_def py_replace_absent)

theorem plain_domain_dir_witness:
  "CHR ''*'' \<notin> set ''example.com''
   \<and> domain_dir ''example.com'' = ''domains/example.com''
   \<and> config_file_path ''example.com'' = ''domains/example.com/openssl.cnf''"
  using plain_domain_dir [of "''example.com''"] by simp

text \<open>
  C2, as stated, fails: \<open>replace\<close> removes every \<open>*.\<close>, not only the leading one, so
  the directory of \<open>*.*.example.com\<close> is \<open>domains/example.com\<close> and not
  \<open>domains/*.example.com\<close>.
\<close>

theorem wildcard_domain_dir_counterexample:
  "domain_dir ''*.*.example.com'' \<noteq> ''domains/'' @ ''*.example.com''
   \<and> config_file_path ''*.*.example.com'' = ''domains/example.com/openssl.cnf''"
  by (simp add: domain_dir_def config_file_path_def dir_domain_def)

text \<open>
  C2, amended. For a domain \<open>*.<rest>\<close> the directory is \<open>domains/<rest>\<close>, and the
  configuration file \<open>domains/<rest>/openssl.cnf\<close>, exactly when \<open><rest>\<close> holds no
  further \<open>*.\<close>.
\<close>

theorem wildcard_domain_dir:
  "(domain_dir (''*.'' @ rest) = ''domains/'' @ rest) = (\<not> sublist ''*.'' rest)
   \<and> (config_file_path (''*.'' @ rest) = ''domains/'' @ rest @ ''/openssl.cnf'')
       = (\<not> sublist ''*.'' rest)"
  using dir_domain_fixed [of rest]
  by (simp add: domain_dir_def config_file_path_def dir_domain_wildcard)

theorem wildcard_domain_dir_witness:
  "\<not> sublist ''*.'' ''example.com''
   \<and> domain_dir ''*.example.com'' = ''domains/example.com''
   \<and> config_file_path ''*.example.com'' = ''domains/example.com/openssl.cnf''"
proof -
  have "\<not> sublist ''*.'' ''example.com''"
    by (simp add: sublist_Cons_right)
  then show ?thesis
    using wildcard_domain_dir [of "''example.com''"] by simp
qed

section \<open>The alternate names\<close>

text \<open>
  C9. The list built from the line typed at the \<open>Alternate names:\<close> prompt (stripped
  as a whole on line 137, then parsed on line 140) is the line split at the commas, each
  segment stripped, the empty segments dropped; \<open>a, ,b,\<close> gives \<open>[a, b]\<close>.
\<close>

theorem alt_names_parsed:
  "parse_alt_names (py_strip line) = spec_alt_names line
   \<and> parse_alt_names line = spec_alt_names line
   \<and> parse_alt_names ''a, ,b,'' = [''a'', ''b'']"
proof -
  have "parse_alt_names ''a, ,b,'' = [''a'', ''b'']"
    by (simp add: parse_alt_names_def py_strip_def py_lstrip_def py_rstrip_def py_isspace_def)
  then show ?thesis
    by (simp add: parse_alt_names_spec spec_alt_names_def map_strip_split_strip)
qed

section \<open>The configuration file\<close>

lemma foldl_writes:
  "foldl (\<lambda>written p. written @ g p) init xs = init @ concat (map g xs)"
  by (induction xs arbitrary: init) auto

lemma text_lines_append: "text_lines (xs @ ys) = text_lines xs @ text_lines ys"
  by (simp add: text_lines_def)

lemma py_split_text_lines:
  "\<forall>l\<in>set ls. nl \<notin> set l \<Longrightarrow> py_split nl (text_lines ls) = ls @ [[]]"
proof (induction ls)
  case Nil
  then show ?case by (simp add: text_lines_def)
next
  case (Cons l ls)
  have "text_lines (l # ls) = l @ nl # text_lines ls"
    by (simp add: text_lines_def)
  then have "py_split nl (text_lines (l # ls)) = py_split nl l @ py_split nl (text_lines ls)"
    by (simp only: py_split_append_sep)
  with Cons show ?case
    by (simp add: py_split_no_sep)
qed

lemma digit_not_nl: "d < 10 \<Longrightarrow> digit d \<noteq> nl"
proof
  assume "d < 10" and "digit d = nl"
  then have "of_char (char_of (48 + d)) = (of_char nl :: nat)"
    by (simp add: digit_def)
  with \<open>d < 10\<close> show False by simp
qed

lemma py_str_no_nl: "nl \<notin> set (py_str n)"
proof (induction n rule: py_str.induct)
  case (1 n)
  show ?case
  proof (cases "n < 10")
    case True
    then show ?thesis
      using digit_not_nl [of n] by (simp add: py_str.simps [of n])
  next
    case False
    with 1 show ?thesis
      using digit_not_nl [of "n mod 10"] by (simp add: py_str.simps [of n])
  qed
qed

lemma config_text_lines:
  "config_text domain alt_names =
     text_lines (header_lines domain @ map dns_line (enumerate 1 alt_names))"
proof -
  have "(\<lambda>written (i, alt_name). written @ dns_entry i alt_name)
          = (\<lambda>written p. written @ (dns_line p @ [nl]))"
    by (simp add: fun_eq_iff dns_entry_def dns_line_def)
  then show ?thesis
    by (simp add: config_text_def config_header_def foldl_writes text_lines_def comp_def)
qed

lemma header_lines_no_nl: "nl \<notin> set domain \<Longrightarrow> \<forall>l\<in>set (header_lines domain). nl \<notin> set l"
  by (simp add: header_lines_def)

lemma header_lines_no_dns: "filter (prefix ''DNS.'') (header_lines domain) = []"
  by (simp add: header_lines_def)

lemma dns_line_no_nl:
  "\<forall>a\<in>set alt_names. nl \<notin> set a \<Longrightarrow>
   \<forall>l\<in>set (map dns_line (enumerate n alt_names)). nl \<notin> set l"
  by (induction alt_names arbitrary: n) (auto simp: dns_line_def py_str_no_nl)

lemma dns_line_kept: "filter (prefix ''DNS.'') (map dns_line ps) = map dns_line ps"
  by (induction ps) (auto simp: dns_line_def)

lemma dns_lines_config_text:
  assumes "nl \<notin> set domain" and "\<forall>a\<in>set alt_names. nl \<notin> set a"
  shows "dns_lines (config_text domain alt_names) = map dns_line (enumerate 1 alt_names)"
proof -
  let ?ls = "header_lines domain @ map dns_line (enumerate 1 alt_names)"
  have "\<forall>l\<in>set ?ls. nl \<notin> set l"
    using header_lines_no_nl [OF assms(1)] dns_line_no_nl [OF assms(2), of 1]
    by (simp only: set_append Un_iff) blast
  then have "py_split nl (text_lines ?ls) = ?ls @ [[]]"
    by (rule py_split_text_lines)
  then have "dns_lines (config_text domain alt_names) = filter (prefix ''DNS.'') (?ls @ [[]])"
    by (simp only: config_text_lines dns_lines_def file_lines_def)
  also have "\<dots> = map dns_line (enumerate 1 alt_names)"
    by (simp add: header_lines_no_dns dns_line_kept)
  finally show ?thesis .
qed

lemma py_str_small:
  "py_str (Suc 0) = ''1''" "py_str (Suc (Suc 0)) = ''2''" "py_str (Suc (Suc (Suc 0))) = ''3''"
  by (simp_all add: py_str.simps digit_def char_of_def bit_iff_odd)

text \<open>What \<open>main\<close> passes on holds no line feed when the lines typed hold none.\<close>

lemma py_strip_subset: "set (py_strip s) \<subseteq> set s"
proof -
  have "set (py_rstrip s) \<subseteq> set s"
    using set_dropWhileD [of _ py_isspace "rev s"] by (auto simp: py_rstrip_def)
  moreover have "set (py_lstrip t) \<subseteq> set t" for t
    using set_dropWhileD [of _ py_isspace t] by (auto simp: py_lstrip_def)
  ultimately show ?thesis
    unfolding py_strip_def by blast
qed

lemma py_split_subset: "piece \<in> set (py_split c s) \<Longrightarrow> set piece \<subseteq> set s"
proof (induction s arbitrary: piece)
  case Nil
  then show ?case by simp
next
  case (Cons x xs)
  then show ?case
    by (fastforce split: if_splits list.splits)
qed

lemma typed_names_no_nl:
  assumes "nl \<notin> set line" and "nl \<notin> set line'"
  shows "\<forall>a\<in>set (include_domain (py_strip line) (parse_alt_names (py_strip line'))).
           nl \<notin> set a"
proof -
  have d: "nl \<notin> set (py_strip line)" and l: "nl \<notin> set (py_strip line')"
    using assms py_strip_subset by blast+
  have "nl \<notin> set (py_strip piece)" if "piece \<in> set (py_split (CHR '','') (py_strip line'))"
    for piece
    using that l py_split_subset py_strip_subset by blast
  with d show ?thesis
    by (auto simp: include_domain_def parse_alt_names_def)
qed



section \<open>The interactive driver\<close>

lemma strip_lower_examples:
  "py_lower (py_strip ''n'') = ''n''"
  "py_lower (py_strip ''yes'') = ''yes''"
  "py_lower (py_strip ''Y es'') = ''y es''"
  "py_lower (py_strip '' Y '') = ''y''"
  "py_strip ''   '' = []"
  "py_strip ''example.com'' = ''example.com''"
  by (simp_all add: py_lower_def py_strip_def py_lstrip_def py_rstrip_def py_isspace_def
        lower_char_def char_of_def bit_iff_odd)

lemma main_offer_declined:
  assumes "which os ''openssl'' (fs w)"
    and "\<not> (path_exists os ''LocalRootCA.key'' (fs w)
            \<and> path_exists os ''LocalRootCA.crt'' (fs w)
            \<and> path_exists os ''LocalRootCA.pem'' (fs w))"
    and "stdin w = line # rest"
    and "py_lower (py_strip line) \<noteq> ''y''"
  shows "main os w =
           Return () (w\<lparr>stdin := rest,
                         stdout := stdout w @ [banner @ [nl], root_ca_prompt,
                           ''Cannot proceed without root CA certificate.'' @ [nl]]\<rparr>)"
  using assms
  by (auto simp: main_def check_openssl_def and_then_def print_def input_def Let_def)

lemma main_offer_accepted:
  assumes "which os ''openssl'' (fs w)"
    and "\<not> (path_exists os ''LocalRootCA.key'' (fs w)
            \<and> path_exists os ''LocalRootCA.crt'' (fs w)
            \<and> path_exists os ''LocalRootCA.pem'' (fs w))"
    and "stdin w = line # rest"
    and "py_lower (py_strip line) = ''y''"
  shows "main os w =
           Raise TypeError (w\<lparr>stdin := rest,
                               stdout := stdout w @ [banner @ [nl], root_ca_prompt]\<rparr>)"
  using assms
  by (auto simp: main_def check_openssl_def and_then_def print_def input_def Let_def
        call_kw_def create_root_ca_params_def)

lemma main_offer_eof:
  assumes "which os ''openssl'' (fs w)"
    and "\<not> (path_exists os ''LocalRootCA.key'' (fs w)
            \<and> path_exists os ''LocalRootCA.crt'' (fs w)
            \<and> path_exists os ''LocalRootCA.pem'' (fs w))"
    and "stdin w = []"
  shows "main os w =
           Raise EOFError (w\<lparr>stdout := stdout w @ [banner @ [nl], root_ca_prompt]\<rparr>)"
  using assms
  by (auto simp: main_def check_openssl_def and_then_def print_def input_def Let_def)

lemma main_root_ca_present:
  assumes "which os ''openssl'' (fs w)"
    and "path_exists os ''LocalRootCA.key'' (fs w)"
    and "path_exists os ''LocalRootCA.crt'' (fs w)"
    and "path_exists os ''LocalRootCA.pem'' (fs w)"
  shows "main os w = collect_domain_input os (w\<lparr>stdout := stdout w @ [banner @ [nl]]\<rparr>)"
  using assms
  by (simp add: main_def check_openssl_def and_then_def print_def)

lemma collect_empty_domain:
  assumes "stdin w = line # rest" and "py_strip line = []"
  shows "collect_domain_input os w =
           Return () (w\<lparr>stdin := rest,
                         stdout := stdout w @ [domain_prompt, ''Domain cannot be empty!'' @ [nl]]\<rparr>)"
  using assms
  by (simp add: collect_domain_input_def and_then_def print_def input_def Let_def)

lemma collect_domain_and_names:
  assumes "stdin w = line # line' # rest" and "py_strip line \<noteq> []"
  shows "collect_domain_input os w =
           issue_domain os (py_strip line)
             (include_domain (py_strip line) (parse_alt_names (py_strip line')))
             (w\<lparr>stdout := stdout w @
                  [domain_prompt,
                   [nl] @ ''Enter alternate domain names (comma-separated)'' @ [nl],
                   ''Examples:'' @ [nl],
                   ''- For wildcard subdomains: *.app.example.com'' @ [nl],
                   ''- For specific domains: admin.example.com'' @ [nl],
                   ''Alternate names: ''],
                stdin := rest\<rparr>)"
  using assms
  by (simp add: collect_domain_input_def and_then_def print_def input_def Let_def)

lemma create_root_ca_body:
  "calls (world_of (create_root_ca mem_platform (start Map.empty []))) =
     [Run [''openssl'', ''genrsa'', ''-des3'', ''-passout'', ''pass:1234'',
           ''-out'', ''LocalRootCA.key'', ''4096''],
      Run [''openssl'', ''req'', ''-x509'', ''-new'', ''-nodes'',
           ''-key'', ''LocalRootCA.key'', ''-sha256'', ''-days'', ''3650'',
           ''-passin'', ''pass:1234'', ''-out'', ''LocalRootCA.crt'', ''-subj'',
           ''/C=US/ST=State/L=City/O=Local CA/OU=Development/CN=Local Root CA''],
      Run [''openssl'', ''x509'', ''-in'', ''LocalRootCA.crt'',
           ''-out'', ''LocalRootCA.pem'', ''-outform'', ''PEM'']]
   \<and> fs (world_of (create_root_ca mem_platform (start Map.empty []))) = root_ca_files"
  by (simp add: create_root_ca_def and_then_def print_def run_def mem_platform_def
        start_def root_ca_files_def Let_def)

text \<open>
  C5. When one of the three root CA files is missing, the first thing read is the answer
  to the offer to create the root CA, printed right after the banner. An answer other
  than \<open>y\<close> ends the run normally with a message: the file system is as it was, no
  directory is made, no file is written, no \<open>openssl\<close> command is run, and the lines
  after the answer are left unread.
\<close>

theorem decline_root_ca:
  assumes "which os ''openssl'' (fs w)"
    and "\<not> (path_exists os ''LocalRootCA.key'' (fs w)
            \<and> path_exists os ''LocalRootCA.crt'' (fs w)
            \<and> path_exists os ''LocalRootCA.pem'' (fs w))"
    and "stdin w = line # rest"
    and "py_lower (py_strip line) \<noteq> ''y''"
  shows "main os w =
           Return () (w\<lparr>stdin := rest,
                         stdout := stdout w @ [banner @ [nl], root_ca_prompt,
                           ''Cannot proceed without root CA certificate.'' @ [nl]]\<rparr>)
         \<and> fs (world_of (main os w)) = fs w
         \<and> calls (world_of (main os w)) = calls w
         \<and> stdin (world_of (main os w)) = rest"
  by (simp add: main_offer_declined [OF assms])

theorem decline_root_ca_witness:
  "which mem_platform ''openssl'' (fs (start Map.empty [''n'']))
   \<and> \<not> (path_exists mem_platform ''LocalRootCA.key'' (fs (start Map.empty [''n'']))
          \<and> path_exists mem_platform ''LocalRootCA.crt'' (fs (start Map.empty [''n'']))
          \<and> path_exists mem_platform ''LocalRootCA.pem'' (fs (start Map.empty [''n''])))
   \<and> stdin (start Map.empty [''n'']) = [''n'']
   \<and> py_lower (py_strip ''n'') \<noteq> ''y''
   \<and> main mem_platform (start Map.empty [''n'']) =
       Return ()
         \<lparr>fs = Map.empty, stdin = [],
          stdout = [banner @ [nl], root_ca_prompt,
                    ''Cannot proceed without root CA certificate.'' @ [nl]],
          calls = []\<rparr>"
  using decline_root_ca [where os = mem_platform and w = "start Map.empty [''n'']"
      and line = "''n''" and rest = "[]"]
  by (simp add: strip_lower_examples mem_platform_def start_def)

text \<open>
  C10. When a root CA file is missing, \<open>main\<close> calls \<open>create_root_ca\<close> when the
  answer, stripped and lower-cased, is \<open>y\<close>, and aborts otherwise; the run ends on the
  abort message exactly when the answer is not \<open>y\<close>. \<open>Y es\<close> aborts.
\<close>

theorem root_ca_answer:
  assumes "which os ''openssl'' (fs w)"
    and "\<not> (path_exists os ''LocalRootCA.key'' (fs w)
            \<and> path_exists os ''LocalRootCA.crt'' (fs w)
            \<and> path_exists os ''LocalRootCA.pem'' (fs w))"
    and "stdin w = line # rest"
  shows "main os w =
           (if py_lower (py_strip line) = ''y''
            then and_then
                   (call_kw create_root_ca_params [''prefixName''] (create_root_ca os)
                      (w\<lparr>stdin := rest,
                         stdout := stdout w @ [banner @ [nl], root_ca_prompt]\<rparr>))
                   (\<lambda>_. collect_domain_input os)
            else Return ()
                   (w\<lparr>stdin := rest,
                      stdout := stdout w @ [banner @ [nl], root_ca_prompt,
                        ''Cannot proceed without root CA certificate.'' @ [nl]]\<rparr>))
         \<and> (main os w =
              Return ()
                (w\<lparr>stdin := rest,
                   stdout := stdout w @ [banner @ [nl], root_ca_prompt,
                     ''Cannot proceed without root CA certificate.'' @ [nl]]\<rparr>))
             = (py_lower (py_strip line) \<noteq> ''y'')"
proof (cases "py_lower (py_strip line) = ''y''")
  case True
  then show ?thesis
    using main_offer_accepted [OF assms]
    by (simp add: call_kw_def create_root_ca_params_def and_then_def)
next
  case False
  then show ?thesis
    using main_offer_declined [OF assms] by simp
qed

theorem root_ca_answer_witness:
  "which mem_platform ''openssl'' (fs (start Map.empty [''Y es'']))
   \<and> \<not> (path_exists mem_platform ''LocalRootCA.key'' (fs (start Map.empty [''Y es'']))
          \<and> path_exists mem_platform ''LocalRootCA.crt'' (fs (start Map.empty [''Y es'']))
          \<and> path_exists mem_platform ''LocalRootCA.pem'' (fs (start Map.empty [''Y es''])))
   \<and> stdin (start Map.empty [''Y es'']) = [''Y es'']
   \<and> py_lower (py_strip ''Y es'') \<noteq> ''y''
   \<and> main mem_platform (start Map.empty [''Y es'']) =
       Return ()
         \<lparr>fs = Map.empty, stdin = [],
          stdout = [banner @ [nl], root_ca_prompt,
                    ''Cannot proceed without root CA certificate.'' @ [nl]],
          calls = []\<rparr>
   \<and> py_lower (py_strip '' Y '') = ''y''
   \<and> main mem_platform (start Map.empty ['' Y '']) \<noteq>
       Return ()
         \<lparr>fs = Map.empty, stdin = [],
          stdout = [banner @ [nl], root_ca_prompt,
                    ''Cannot proceed without root CA certificate.'' @ [nl]],
          calls = []\<rparr>"
  using root_ca_answer [where os = mem_platform and w = "start Map.empty [''Y es'']"
      and line = "''Y es''" and rest = "[]"]
    root_ca_answer [where os = mem_platform and w = "start Map.empty ['' Y '']"
      and line = "'' Y ''" and rest = "[]"]
  by (simp add: strip_lower_examples mem_platform_def start_def call_kw_def
        create_root_ca_params_def and_then_def)

text \<open>
  C1 does not hold of the code. Line 122 calls \<open>create_root_ca(prefixName="Local")\<close>,
  and \<open>create_root_ca\<close> has no parameter: with no root CA files and the answer \<open>y\<close>
  the call raises \<open>TypeError\<close> before the body runs. No \<open>openssl\<close> command is run, no
  file is written, and the domain is never asked for.
\<close>

theorem root_ca_creation_raises:
  "main mem_platform (start Map.empty [''y'']) =
     Raise TypeError
       \<lparr>fs = Map.empty, stdin = [], stdout = [banner @ [nl], root_ca_prompt], calls = []\<rparr>"
proof -
  have "py_lower (py_strip ''y'') = ''y''"
    by (simp add: py_lower_def py_strip_def py_lstrip_def py_rstrip_def py_isspace_def
          lower_char_def)
  then show ?thesis
    by (simp add: main_offer_accepted [where rest = "[]" and line = "''y''"]
          mem_platform_def start_def)
qed

text \<open>
  C8. With the root CA files there, a domain that is empty after stripping ends the run
  normally on the message \<open>Domain cannot be empty!\<close>: the file system is as it was and
  no directory, file or \<open>openssl\<close> command was attempted. Wherever the domain is asked
  for, the same holds.
\<close>

theorem empty_domain_aborts:
  assumes "which os ''openssl'' (fs w)"
    and "path_exists os ''LocalRootCA.key'' (fs w)"
    and "path_exists os ''LocalRootCA.crt'' (fs w)"
    and "path_exists os ''LocalRootCA.pem'' (fs w)"
    and "stdin w = line # rest"
    and "py_strip line = []"
  shows "main os w =
           Return () (w\<lparr>stdin := rest,
                         stdout := stdout w @ [banner @ [nl], domain_prompt,
                           ''Domain cannot be empty!'' @ [nl]]\<rparr>)
         \<and> fs (world_of (main os w)) = fs w
         \<and> calls (world_of (main os w)) = calls w
         \<and> collect_domain_input os w =
             Return () (w\<lparr>stdin := rest,
                           stdout := stdout w @ [domain_prompt,
                             ''Domain cannot be empty!'' @ [nl]]\<rparr>)"
  using assms
  by (simp add: main_root_ca_present collect_empty_domain)

theorem empty_domain_aborts_witness:
  "which mem_platform ''openssl'' (fs (start root_ca_files [''   '']))
   \<and> path_exists mem_platform ''LocalRootCA.key'' (fs (start root_ca_files [''   '']))
   \<and> path_exists mem_platform ''LocalRootCA.crt'' (fs (start root_ca_files [''   '']))
   \<and> path_exists mem_platform ''LocalRootCA.pem'' (fs (start root_ca_files [''   '']))
   \<and> stdin (start root_ca_files [''   '']) = [''   '']
   \<and> py_strip ''   '' = []
   \<and> main mem_platform (start root_ca_files [''   '']) =
       Return ()
         \<lparr>fs = root_ca_files, stdin = [],
          stdout = [banner @ [nl], domain_prompt, ''Domain cannot be empty!'' @ [nl]],
          calls = []\<rparr>"
  using empty_domain_aborts [where os = mem_platform and w = "start root_ca_files [''   '']"
      and line = "''   ''" and rest = "[]"]
  by (simp add: strip_lower_examples mem_platform_def start_def root_ca_files_def)

text \<open>
  C3. The list that \<open>main\<close> hands on, after the two prompts, is the parsed list of the
  second line when the domain is one of its elements, and the domain followed by that
  list otherwise; so does \<open>include_domain\<close> for every domain and every list.
\<close>

theorem names_with_domain:
  assumes "stdin w = line # line' # rest" and "py_strip line \<noteq> []"
  shows "collect_domain_input os w =
           issue_domain os (py_strip line)
             (if py_strip line \<in> set (parse_alt_names (py_strip line'))
              then parse_alt_names (py_strip line')
              else py_strip line # parse_alt_names (py_strip line'))
             (w\<lparr>stdout := stdout w @
                  [domain_prompt,
                   [nl] @ ''Enter alternate domain names (comma-separated)'' @ [nl],
                   ''Examples:'' @ [nl],
                   ''- For wildcard subdomains: *.app.example.com'' @ [nl],
                   ''- For specific domains: admin.example.com'' @ [nl],
                   ''Alternate names: ''],
                stdin := rest\<rparr>)
         \<and> include_domain domain names = (if domain \<in> set names then names else domain # names)"
  using collect_domain_and_names [OF assms, of os]
  by (simp add: include_domain_def)

theorem names_with_domain_witness:
  "stdin (start root_ca_files [''example.com'', ''www.example.com'']) =
     [''example.com'', ''www.example.com'']
   \<and> py_strip ''example.com'' \<noteq> []
   \<and> collect_domain_input mem_platform (start root_ca_files [''example.com'', ''www.example.com''])
     = issue_domain mem_platform ''example.com'' [''example.com'', ''www.example.com'']
         \<lparr>fs = root_ca_files, stdin = [],
          stdout = [domain_prompt,
                   [nl] @ ''Enter alternate domain names (comma-separated)'' @ [nl],
                   ''Examples:'' @ [nl],
                   ''- For wildcard subdomains: *.app.example.com'' @ [nl],
                   ''- For specific domains: admin.example.com'' @ [nl],
                   ''Alternate names: ''],
          calls = []\<rparr>
   \<and> collect_domain_input mem_platform
       (start root_ca_files [''example.com'', ''www.example.com, example.com''])
     = issue_domain mem_platform ''example.com'' [''www.example.com'', ''example.com'']
         \<lparr>fs = root_ca_files, stdin = [],
          stdout = [domain_prompt,
                   [nl] @ ''Enter alternate domain names (comma-separated)'' @ [nl],
                   ''Examples:'' @ [nl],
                   ''- For wildcard subdomains: *.app.example.com'' @ [nl],
                   ''- For specific domains: admin.example.com'' @ [nl],
                   ''Alternate names: ''],
          calls = []\<rparr>"
proof -
  have p: "parse_alt_names (py_strip ''www.example.com'') = [''www.example.com'']"
    "parse_alt_names (py_strip ''www.example.com, example.com'')
       = [''www.example.com'', ''example.com'']"
    by (simp_all add: parse_alt_names_def py_strip_def py_lstrip_def py_rstrip_def
          py_isspace_def)
  show ?thesis
    using names_with_domain [where os = mem_platform
        and w = "start root_ca_files [''example.com'', ''www.example.com'']"
        and line = "''example.com''" and line' = "''www.example.com''" and rest = "[]"]
      names_with_domain [where os = mem_platform
        and w = "start root_ca_files [''example.com'', ''www.example.com, example.com'']"
        and line = "''example.com''" and line' = "''www.example.com, example.com''"
        and rest = "[]"]
    by (simp add: p strip_lower_examples start_def)
qed

text \<open>
  C6. The example run: domain \<open>*.example.com\<close>, alternate names
  \<open>admin.example.com, *.app.example.com\<close>, on a file system that holds the root CA.
  The run ends normally; the final list has the domain first; the directory
  \<open>domains/example.com\<close> is made; the configuration goes to
  \<open>domains/example.com/openssl.cnf\<close>; the three \<open>openssl\<close> commands write
  \<open>example.com.key\<close>, \<open>example.com.csr\<close> and \<open>example.com.crt\<close> there; and the
  \<open>DNS.n\<close> lines follow the list.
\<close>

theorem example_run_result:
  "raised example_run = None
   \<and> include_domain ''*.example.com''
         (parse_alt_names (py_strip ''admin.example.com, *.app.example.com''))
       = [''*.example.com'', ''admin.example.com'', ''*.app.example.com'']
   \<and> calls (world_of example_run) =
       [Makedirs ''domains'',
        Makedirs ''domains/example.com'',
        WriteFile ''domains/example.com/openssl.cnf''
          (config_text ''*.example.com''
             [''*.example.com'', ''admin.example.com'', ''*.app.example.com'']),
        Run [''openssl'', ''genrsa'', ''-out'', ''domains/example.com/example.com.key'',
             ''2048''],
        Run [''openssl'', ''req'', ''-new'', ''-key'', ''domains/example.com/example.com.key'',
             ''-out'', ''domains/example.com/example.com.csr'',
             ''-config'', ''domains/example.com/openssl.cnf''],
        Run [''openssl'', ''x509'', ''-req'', ''-in'', ''domains/example.com/example.com.csr'',
             ''-CA'', ''LocalRootCA.crt'', ''-CAkey'', ''LocalRootCA.key'',
             ''-passin'', ''pass:1234'',
             ''-CAcreateserial'', ''-out'', ''domains/example.com/example.com.crt'',
             ''-days'', ''365'', ''-sha256'',
             ''-extfile'', ''domains/example.com/openssl.cnf'', ''-extensions'', ''v3_req'']]
   \<and> fs (world_of example_run) ''domains/example.com'' = Some Dir
   \<and> fs (world_of example_run) ''domains/example.com/openssl.cnf'' =
       Some (File (config_text ''*.example.com''
          [''*.example.com'', ''admin.example.com'', ''*.app.example.com'']))
   \<and> fs (world_of example_run) ''domains/example.com/example.com.key'' \<noteq> None
   \<and> fs (world_of example_run) ''domains/example.com/example.com.csr'' \<noteq> None
   \<and> fs (world_of example_run) ''domains/example.com/example.com.crt'' \<noteq> None
   \<and> dns_lines (config_text ''*.example.com''
          [''*.example.com'', ''admin.example.com'', ''*.app.example.com''])
       = [''DNS.1 = *.example.com'', ''DNS.2 = admin.example.com'',
          ''DNS.3 = *.app.example.com'']"
proof -
  have names: "include_domain ''*.example.com''
         (parse_alt_names (py_strip ''admin.example.com, *.app.example.com''))
       = [''*.example.com'', ''admin.example.com'', ''*.app.example.com'']"
    by (simp add: include_domain_def parse_alt_names_def py_strip_def py_lstrip_def
          py_rstrip_def py_isspace_def)
  have domain: "py_strip ''*.example.com'' = ''*.example.com''"
    by (simp add: py_strip_def py_lstrip_def py_rstrip_def py_isspace_def)
  have "example_run =
          collect_domain_input mem_platform
            \<lparr>fs = root_ca_files,
             stdin = [''*.example.com'', ''admin.example.com, *.app.example.com''],
             stdout = [banner @ [nl]], calls = []\<rparr>"
    unfolding example_run_def
    by (simp add: main_root_ca_present mem_platform_def start_def root_ca_files_def)
  also have "\<dots> =
          issue_domain mem_platform ''*.example.com''
            [''*.example.com'', ''admin.example.com'', ''*.app.example.com'']
            \<lparr>fs = root_ca_files, stdin = [],
             stdout = [banner @ [nl],
                   domain_prompt,
                   [nl] @ ''Enter alternate domain names (comma-separated)'' @ [nl],
                   ''Examples:'' @ [nl],
                   ''- For wildcard subdomains: *.app.example.com'' @ [nl],
                   ''- For specific domains: admin.example.com'' @ [nl],
                   ''Alternate names: ''], calls = []\<rparr>"
    using collect_domain_and_names
      [where w = "\<lparr>fs = root_ca_files,
             stdin = [''*.example.com'', ''admin.example.com, *.app.example.com''],
             stdout = [banner @ [nl]], calls = []\<rparr>"
        and line = "''*.example.com''" and line' = "''admin.example.com, *.app.example.com''"
        and rest = "[]" and os = mem_platform]
    by (simp add: names domain)
  finally have run: "example_run =
          issue_domain mem_platform ''*.example.com''
            [''*.example.com'', ''admin.example.com'', ''*.app.example.com'']
            \<lparr>fs = root_ca_files, stdin = [],
             stdout = [banner @ [nl],
                   domain_prompt,
                   [nl] @ ''Enter alternate domain names (comma-separated)'' @ [nl],
                   ''Examples:'' @ [nl],
                   ''- For wildcard subdomains: *.app.example.com'' @ [nl],
                   ''- For specific domains: admin.example.com'' @ [nl],
                   ''Alternate names: ''], calls = []\<rparr>" .
  have lines: "dns_lines (config_text ''*.example.com''
          [''*.example.com'', ''admin.example.com'', ''*.app.example.com''])
       = [''DNS.1 = *.example.com'', ''DNS.2 = admin.example.com'',
          ''DNS.3 = *.app.example.com'']"
    by (subst dns_lines_config_text) (simp_all add: dns_line_def py_str_small)
  show ?thesis
    unfolding run
    by (simp add: names lines issue_domain_def and_then_def print_def os_makedirs_def
      mem_platform_def root_ca_files_def domain_dir_def dir_domain_def
      create_openssl_config_def config_file_path_def write_file_def create_key_def
      create_csr_def sign_certificate_def run_def Let_def)
qed

end
